theory Spec2Isabelle
  imports Complex_Main
begin

section \<open>JavaScript values\<close>

text \<open>
  The library \<^verbatim>\<open>src/index.js\<close> is a flat set of functions over arbitrary JavaScript
  values.  A value is modelled by a datatype with one constructor per runtime category.

  \<^item> A Number is \<open>NaN\<close>, an infinity, negative zero, or a finite value \<open>Fin q\<close> with
    \<open>q\<close> the exact value of the binary64 number (\<open>Fin 0\<close> is positive zero).  Results of
    parsing and arithmetic are rounded to binary64 by \<open>to_double\<close> below.
  \<^item> A string is the list of its UTF-16 code units, each a natural number.
  \<^item> A BigInt is an integer.
  \<^item> A symbol is given by its description, a function by its source text.
  \<^item> An array is the list of its elements; an object is the list of its own enumerable
    properties in property order, each keyed by a string or by a symbol.

  Objects have no identity, prototype chain, accessor or user-defined conversion method
  here: the model is of plain values.
\<close>

datatype jsnum = NaN | PosInf | NegInf | NegZero | Fin rat

type_synonym ustring = "nat list"

datatype propkey = StrKey ustring | SymKey ustring

datatype jsval =
    JUndefined
  | JNull
  | JBool bool
  | JNum jsnum
  | JBigInt int
  | JStr ustring
  | JSym ustring
  | JFun ustring
  | JArr "jsval list"
  | JObj "(propkey \<times> jsval) list"

text \<open>
  Every \<^verbatim>\<open>throw\<close> of the library is \<^verbatim>\<open>new Error(message)\<close>; the exceptions
  of the platform's built-in functions are kept apart by their constructor.
\<close>

datatype js_error = Error ustring | TypeError | RangeError | SyntaxError

type_synonym 'a result = "js_error + 'a"

text \<open>String literals of the source are written as HOL strings and read as code units.\<close>

definition units :: "string \<Rightarrow> ustring" where
  "units s = map of_char s"

abbreviation cu :: "char \<Rightarrow> nat" where
  "cu c \<equiv> of_char c"

text \<open>The \<^verbatim>\<open>typeof\<close> operator and \<^verbatim>\<open>Array.isArray\<close>.\<close>

fun typeof :: "jsval \<Rightarrow> ustring" where
  "typeof JUndefined = units ''undefined''"
| "typeof JNull = units ''object''"
| "typeof (JBool _) = units ''boolean''"
| "typeof (JNum _) = units ''number''"
| "typeof (JBigInt _) = units ''bigint''"
| "typeof (JStr _) = units ''string''"
| "typeof (JSym _) = units ''symbol''"
| "typeof (JFun _) = units ''function''"
| "typeof (JArr _) = units ''object''"
| "typeof (JObj _) = units ''object''"

fun isArray :: "jsval \<Rightarrow> bool" where
  "isArray (JArr _) = True"
| "isArray _ = False"

section \<open>Numbers\<close>

subsection \<open>Rounding to binary64\<close>

text \<open>
  \<open>to_double q\<close> is the Number value for the real number \<open>q\<close>: the binary64 value nearest
  to \<open>q\<close>, ties to the even significand, an infinity from \<open>2 ^ 1024 - 2 ^ 970\<close> on, and a
  zero (of the sign of \<open>q\<close>) when \<open>q\<close> underflows.
\<close>

definition pow2 :: "int \<Rightarrow> rat" where
  "pow2 k = (if 0 \<le> k then 2 ^ nat k else 1 / 2 ^ nat (- k))"

definition pow10 :: "int \<Rightarrow> rat" where
  "pow10 k = (if 0 \<le> k then 10 ^ nat k else 1 / 10 ^ nat (- k))"

function bitlen_int :: "int \<Rightarrow> int" where
  "bitlen_int n = (if n \<le> 0 then 0 else 1 + bitlen_int (n div 2))"
  by auto
termination
proof (relation "measure nat")
  show "wf (measure nat)" by simp
next
  fix n :: int assume "\<not> n \<le> 0"
  then have "nat (n div 2) < nat n" by linarith
  then show "(n div 2, n) \<in> measure nat" by simp
qed

declare bitlen_int.simps [simp del]

text \<open>\<open>ilog2 a\<close> is the exponent \<open>e\<close> with \<open>2 ^ e \<le> a < 2 ^ (e + 1)\<close>, for \<open>a > 0\<close>.\<close>

definition ilog2 :: "rat \<Rightarrow> int" where
  "ilog2 a = (let (p, d) = quotient_of a;
                  k = bitlen_int p - bitlen_int d
              in if pow2 k \<le> a then k else k - 1)"

definition round_half_even :: "rat \<Rightarrow> int" where
  "round_half_even x = (let f = \<lfloor>x\<rfloor>; d = x - of_int f in
      if d < 1 / 2 then f else if 1 / 2 < d then f + 1 else if even f then f else f + 1)"

definition to_double :: "rat \<Rightarrow> jsnum" where
  "to_double q = (if q = 0 then Fin 0 else
     let a = \<bar>q\<bar>; e = max (ilog2 a) (- 1022); ulp = pow2 (e - 52);
         r = of_int (round_half_even (a / ulp)) * ulp
     in if pow2 1024 \<le> r then (if q < 0 then NegInf else PosInf)
        else if r = 0 then (if q < 0 then NegZero else Fin 0)
        else Fin (if q < 0 then - r else r))"

fun jsnum_neg :: "jsnum \<Rightarrow> jsnum" where
  "jsnum_neg NaN = NaN"
| "jsnum_neg PosInf = NegInf"
| "jsnum_neg NegInf = PosInf"
| "jsnum_neg NegZero = Fin 0"
| "jsnum_neg (Fin q) = (if q = 0 then NegZero else Fin (- q))"

text \<open>The global \<^verbatim>\<open>isNaN\<close>, on a Number.\<close>

fun isNaN :: "jsnum \<Rightarrow> bool" where
  "isNaN NaN = True"
| "isNaN _ = False"

text \<open>\<^verbatim>\<open>Number::add\<close>, the \<^verbatim>\<open>+\<close> of two Numbers.\<close>

fun Number_add :: "jsnum \<Rightarrow> jsnum \<Rightarrow> jsnum" where
  "Number_add NaN _ = NaN"
| "Number_add _ NaN = NaN"
| "Number_add PosInf NegInf = NaN"
| "Number_add NegInf PosInf = NaN"
| "Number_add PosInf _ = PosInf"
| "Number_add _ PosInf = PosInf"
| "Number_add NegInf _ = NegInf"
| "Number_add _ NegInf = NegInf"
| "Number_add NegZero NegZero = NegZero"
| "Number_add NegZero (Fin q) = Fin q"
| "Number_add (Fin p) NegZero = Fin p"
| "Number_add (Fin p) (Fin q) = (if p + q = 0 then Fin 0 else to_double (p + q))"

text \<open>
  \<^verbatim>\<open>Number::equal\<close>, the \<^verbatim>\<open>===\<close> of two Numbers: \<open>NaN\<close> equals nothing, and the
  two zeros are equal.
\<close>

fun Number_equal :: "jsnum \<Rightarrow> jsnum \<Rightarrow> bool" where
  "Number_equal NaN _ = False"
| "Number_equal _ NaN = False"
| "Number_equal NegZero y = (y = NegZero \<or> y = Fin 0)"
| "Number_equal x NegZero = (x = Fin 0)"
| "Number_equal x y = (x = y)"

subsection \<open>Number to string\<close>

function dec_digits :: "int \<Rightarrow> ustring" where
  "dec_digits n = (if n < 10 then [48 + nat n] else dec_digits (n div 10) @ [48 + nat (n mod 10)])"
  by auto
termination
proof (relation "measure nat")
  show "wf (measure nat)" by simp
next
  fix n :: int assume "\<not> n < 10"
  then have "nat (n div 10) < nat n" by linarith
  then show "(n div 10, n) \<in> measure nat" by simp
qed

declare dec_digits.simps [simp del]

text \<open>\<open>dec_exp x\<close> is the \<open>n\<close> with \<open>10 ^ (n - 1) \<le> x < 10 ^ n\<close>, for \<open>x > 0\<close>.\<close>

definition dec_exp :: "rat \<Rightarrow> int" where
  "dec_exp x = (if 1 \<le> x then int (length (dec_digits \<lfloor>x\<rfloor>))
                else 1 - int (length (dec_digits (\<lceil>1 / x\<rceil> - 1))))"

text \<open>
  \<^verbatim>\<open>Number::toString\<close> (radix 10) takes integers \<open>n\<close>, \<open>k\<close>, \<open>s\<close> with \<open>k\<close> as small as
  possible, \<open>10 ^ (k - 1) \<le> s < 10 ^ k\<close> and \<open>s * 10 ^ (n - k)\<close> rounding to \<open>x\<close>; among
  several \<open>s\<close>, the one nearest to \<open>x\<close>.  \<open>digits_candidate x k\<close> is the \<open>k\<close>-digit
  decimal nearest to \<open>x\<close>; seventeen digits always identify a binary64 value.
\<close>

definition digits_candidate :: "rat \<Rightarrow> nat \<Rightarrow> int \<times> int" where
  "digits_candidate x k = (let n = dec_exp x; s = round_half_even (x / pow10 (n - int k))
                           in if s = 10 ^ k then (10 ^ (k - 1), n + 1) else (s, n))"

definition digits_ok :: "rat \<Rightarrow> nat \<Rightarrow> bool" where
  "digits_ok x k = (let (s, n) = digits_candidate x k
                    in to_double (of_int s * pow10 (n - int k)) = Fin x)"

fun shortest_digits :: "rat \<Rightarrow> nat list \<Rightarrow> nat" where
  "shortest_digits x [] = 17"
| "shortest_digits x (k # ks) = (if digits_ok x k then k else shortest_digits x ks)"

definition positive_toString :: "rat \<Rightarrow> ustring" where
  "positive_toString x =
     (let k = shortest_digits x [1..<17]; (s, n) = digits_candidate x k; ds = dec_digits s in
      if int k \<le> n \<and> n \<le> 21 then ds @ replicate (nat (n - int k)) (cu CHR ''0'')
      else if 0 < n \<and> n \<le> 21 then take (nat n) ds @ [cu CHR ''.''] @ drop (nat n) ds
      else if - 6 < n \<and> n \<le> 0 then
        units ''0.'' @ replicate (nat (- n)) (cu CHR ''0'') @ ds
      else
        (if k = 1 then ds else take 1 ds @ [cu CHR ''.''] @ drop 1 ds)
          @ [cu CHR ''e'', if n - 1 < 0 then cu CHR ''-'' else cu CHR ''+'']
          @ dec_digits \<bar>n - 1\<bar>)"

fun Number_toString :: "jsnum \<Rightarrow> ustring" where
  "Number_toString NaN = units ''NaN''"
| "Number_toString PosInf = units ''Infinity''"
| "Number_toString NegInf = units ''-Infinity''"
| "Number_toString NegZero = units ''0''"
| "Number_toString (Fin q) =
     (if q = 0 then units ''0''
      else if q < 0 then cu CHR ''-'' # positive_toString (- q)
      else positive_toString q)"

text \<open>\<^verbatim>\<open>BigInt::toString\<close> (radix 10).\<close>

definition BigInt_toString :: "int \<Rightarrow> ustring" where
  "BigInt_toString i = (if i < 0 then cu CHR ''-'' # dec_digits (- i) else dec_digits i)"

subsection \<open>String to number\<close>

text \<open>White space and line terminators, as \<^verbatim>\<open>String.prototype.trim\<close> strips them.\<close>

definition is_ws :: "nat \<Rightarrow> bool" where
  "is_ws c = (c \<in> {9, 10, 11, 12, 13, 32, 160, 5760, 8232, 8233, 8239, 8287, 12288, 65279}
              \<or> (8192 \<le> c \<and> c \<le> 8202))"

definition trim_start :: "ustring \<Rightarrow> ustring" where
  "trim_start s = dropWhile is_ws s"

definition trim :: "ustring \<Rightarrow> ustring" where
  "trim s = rev (dropWhile is_ws (rev (dropWhile is_ws s)))"

definition starts_with :: "ustring \<Rightarrow> ustring \<Rightarrow> bool" where
  "starts_with p s = (take (length p) s = p)"

text \<open>
  The value of a code unit as a digit: \<open>0\<close> to \<open>9\<close>, then the letters of either case
  from \<open>10\<close> on; \<open>36\<close> for a code unit that is no digit in any radix.
\<close>

definition radix_digit :: "nat \<Rightarrow> nat" where
  "radix_digit c = (if 48 \<le> c \<and> c \<le> 57 then c - 48
                    else if 97 \<le> c \<and> c \<le> 122 then c - 87
                    else if 65 \<le> c \<and> c \<le> 90 then c - 55
                    else 36)"

definition is_radix_digit :: "nat \<Rightarrow> nat \<Rightarrow> bool" where
  "is_radix_digit R c = (radix_digit c < R)"

definition radix_value :: "nat \<Rightarrow> ustring \<Rightarrow> int" where
  "radix_value R ds = foldl (\<lambda>a c. a * int R + int (radix_digit c)) 0 ds"

abbreviation is_digit :: "nat \<Rightarrow> bool" where
  "is_digit \<equiv> is_radix_digit 10"

abbreviation dec_value :: "ustring \<Rightarrow> int" where
  "dec_value \<equiv> radix_value 10"

text \<open>
  The longest prefix of a string that is a \<^verbatim>\<open>StrDecimalLiteral\<close>: an optional sign,
  then \<^verbatim>\<open>Infinity\<close>, or digits with an optional fraction, or a fraction alone, and an
  optional exponent.  The result is the Number value of the prefix and the rest of the
  string; \<open>None\<close> when no prefix is a literal.
\<close>

definition exponent_part :: "ustring \<Rightarrow> int \<times> ustring" where
  "exponent_part s =
     (case s of
        [] \<Rightarrow> (0, s)
      | c # r \<Rightarrow>
          if c = cu CHR ''e'' \<or> c = cu CHR ''E'' then
            (let (sg, r') = (case r of
                               [] \<Rightarrow> (1, r)
                             | d # t \<Rightarrow> if d = cu CHR ''+'' then (1, t)
                                        else if d = cu CHR ''-'' then (- 1, t)
                                        else (1, r));
                 ds = takeWhile is_digit r'
             in if ds = [] then (0, s) else (sg * dec_value ds, dropWhile is_digit r'))
          else (0, s))"

definition unsigned_decimal :: "ustring \<Rightarrow> (jsnum \<times> ustring) option" where
  "unsigned_decimal s =
     (if starts_with (units ''Infinity'') s then Some (PosInf, drop 8 s)
      else
        let ip = takeWhile is_digit s; r1 = dropWhile is_digit s in
        if r1 \<noteq> [] \<and> hd r1 = cu CHR ''.'' then
          (let fp = takeWhile is_digit (tl r1); r2 = dropWhile is_digit (tl r1) in
           if ip = [] \<and> fp = [] then None
           else let (e, r3) = exponent_part r2
                in Some (to_double (of_int (dec_value (ip @ fp)) * pow10 (e - int (length fp))), r3))
        else if ip = [] then None
        else let (e, r3) = exponent_part r1
             in Some (to_double (of_int (dec_value ip) * pow10 e), r3))"

definition signed_decimal :: "ustring \<Rightarrow> (jsnum \<times> ustring) option" where
  "signed_decimal s =
     (case s of
        [] \<Rightarrow> None
      | c # r \<Rightarrow>
          if c = cu CHR ''+'' then unsigned_decimal r
          else if c = cu CHR ''-'' then map_option (\<lambda>(n, r'). (jsnum_neg n, r')) (unsigned_decimal r)
          else unsigned_decimal s)"

text \<open>
  \<^verbatim>\<open>parseFloat(string)\<close>: leading white space is skipped, the longest decimal literal
  is read, whatever follows it is ignored; \<open>NaN\<close> when there is no literal.
\<close>

definition parseFloat :: "ustring \<Rightarrow> jsnum" where
  "parseFloat s = (case signed_decimal (trim_start s) of None \<Rightarrow> NaN | Some (n, _) \<Rightarrow> n)"

text \<open>
  \<^verbatim>\<open>parseInt(string, radix)\<close>: leading white space is skipped, then a sign; a radix
  other than \<open>0\<close> must lie in \<open>2..36\<close>; the prefix \<^verbatim>\<open>0x\<close> is stripped only for radix
  \<open>0\<close> or \<open>16\<close>; the longest run of digits of the radix is read and whatever follows is
  ignored; \<open>NaN\<close> when the run is empty.
\<close>

definition parseInt :: "ustring \<Rightarrow> int \<Rightarrow> jsnum" where
  "parseInt s radix =
     (let S = trim_start s;
          neg = (S \<noteq> [] \<and> hd S = cu CHR ''-'');
          S1 = (if S \<noteq> [] \<and> (hd S = cu CHR ''+'' \<or> hd S = cu CHR ''-'') then tl S else S)
      in if radix \<noteq> 0 \<and> (radix < 2 \<or> 36 < radix) then NaN
         else
           let strip = (radix = 0 \<or> radix = 16) \<and>
                       (starts_with (units ''0x'') S1 \<or> starts_with (units ''0X'') S1);
               R = (if strip then 16 else if radix = 0 then 10 else nat radix);
               S2 = (if strip then drop 2 S1 else S1);
               Z = takeWhile (is_radix_digit R) S2
           in if Z = [] then NaN
              else let m = radix_value R Z
                   in if m = 0 then (if neg then NegZero else Fin 0)
                      else to_double (of_int (if neg then - m else m)))"

text \<open>
  \<^verbatim>\<open>StringToNumber\<close>, the conversion behind \<^verbatim>\<open>Number(string)\<close>: the whole trimmed
  string must be a numeric literal (decimal, or unsigned hexadecimal, octal or binary);
  the empty string is \<open>0\<close>.
\<close>

definition non_decimal_radix :: "ustring \<Rightarrow> nat" where
  "non_decimal_radix t =
     (if starts_with (units ''0x'') t \<or> starts_with (units ''0X'') t then 16
      else if starts_with (units ''0o'') t \<or> starts_with (units ''0O'') t then 8
      else if starts_with (units ''0b'') t \<or> starts_with (units ''0B'') t then 2
      else 0)"

definition non_decimal :: "ustring \<Rightarrow> int option" where
  "non_decimal t =
     (let R = non_decimal_radix t; ds = drop 2 t
      in if R \<noteq> 0 \<and> ds \<noteq> [] \<and> list_all (is_radix_digit R) ds
         then Some (radix_value R ds) else None)"

definition StringToNumber :: "ustring \<Rightarrow> jsnum" where
  "StringToNumber s =
     (let t = trim s in
      if t = [] then Fin 0
      else case non_decimal t of
             Some m \<Rightarrow> to_double (of_int m)
           | None \<Rightarrow> (case signed_decimal t of
                        None \<Rightarrow> NaN
                      | Some (n, r) \<Rightarrow> if r = [] then n else NaN))"

text \<open>
  \<^verbatim>\<open>StringToBigInt\<close>, the conversion behind \<^verbatim>\<open>BigInt(string)\<close>: the trimmed string is
  empty, or decimal digits with an optional sign, or an unsigned hexadecimal, octal or
  binary literal; \<open>None\<close> otherwise.
\<close>

definition StringToBigInt :: "ustring \<Rightarrow> int option" where
  "StringToBigInt s =
     (let t = trim s in
      if t = [] then Some 0
      else case non_decimal t of
             Some m \<Rightarrow> Some m
           | None \<Rightarrow>
               let neg = (hd t = cu CHR ''-'');
                   ds = (if hd t = cu CHR ''+'' \<or> hd t = cu CHR ''-'' then tl t else t)
               in if ds \<noteq> [] \<and> list_all is_digit ds
                  then Some (if neg then - dec_value ds else dec_value ds) else None)"

section \<open>Conversions between values\<close>

text \<open>
  \<^verbatim>\<open>ToString\<close>.  A symbol has no string conversion (\<^verbatim>\<open>TypeError\<close>).  An array converts
  by \<^verbatim>\<open>Array.prototype.join\<close>: the elements' strings separated by commas, the empty
  string for \<^verbatim>\<open>undefined\<close> and \<^verbatim>\<open>null\<close>.  A plain object converts to
  \<^verbatim>\<open>[object Object]\<close>, a function to its source text.
\<close>

fun ToString :: "jsval \<Rightarrow> ustring result"
  and join_elements :: "jsval list \<Rightarrow> ustring result" where
  "ToString JUndefined = Inr (units ''undefined'')"
| "ToString JNull = Inr (units ''null'')"
| "ToString (JBool b) = Inr (if b then units ''true'' else units ''false'')"
| "ToString (JNum n) = Inr (Number_toString n)"
| "ToString (JBigInt i) = Inr (BigInt_toString i)"
| "ToString (JStr s) = Inr s"
| "ToString (JSym _) = Inl TypeError"
| "ToString (JFun src) = Inr src"
| "ToString (JArr xs) = join_elements xs"
| "ToString (JObj _) = Inr (units ''[object Object]'')"
| "join_elements [] = Inr []"
| "join_elements (x # xs) =
     (case (if x = JUndefined \<or> x = JNull then Inr [] else ToString x) of
        Inl e \<Rightarrow> Inl e
      | Inr s \<Rightarrow>
          if xs = [] then Inr s
          else (case join_elements xs of
                  Inl e \<Rightarrow> Inl e
                | Inr t \<Rightarrow> Inr (s @ cu CHR '','' # t)))"

text \<open>
  \<^verbatim>\<open>ToPrimitive\<close>: a primitive is itself; an array, object or function becomes its string
  (the \<^verbatim>\<open>valueOf\<close> of a plain object returns the object, so either hint ends in
  \<^verbatim>\<open>toString\<close>).
\<close>

fun is_primitive :: "jsval \<Rightarrow> bool" where
  "is_primitive (JArr _) = False"
| "is_primitive (JObj _) = False"
| "is_primitive (JFun _) = False"
| "is_primitive _ = True"

definition ToPrimitive :: "jsval \<Rightarrow> jsval result" where
  "ToPrimitive v =
     (if is_primitive v then Inr v
      else case ToString v of Inl e \<Rightarrow> Inl e | Inr s \<Rightarrow> Inr (JStr s))"

text \<open>\<^verbatim>\<open>ToNumber\<close>, and \<^verbatim>\<open>Number(value)\<close>, which also converts a BigInt.\<close>

fun ToNumber_primitive :: "jsval \<Rightarrow> jsnum result" where
  "ToNumber_primitive JUndefined = Inr NaN"
| "ToNumber_primitive JNull = Inr (Fin 0)"
| "ToNumber_primitive (JBool b) = Inr (Fin (if b then 1 else 0))"
| "ToNumber_primitive (JNum n) = Inr n"
| "ToNumber_primitive (JStr s) = Inr (StringToNumber s)"
| "ToNumber_primitive _ = Inl TypeError"

definition ToNumber :: "jsval \<Rightarrow> jsnum result" where
  "ToNumber v = (case ToPrimitive v of Inl e \<Rightarrow> Inl e | Inr p \<Rightarrow> ToNumber_primitive p)"

definition Number_call :: "jsval \<Rightarrow> jsnum result" where
  "Number_call v =
     (case ToPrimitive v of
        Inl e \<Rightarrow> Inl e
      | Inr (JBigInt i) \<Rightarrow> Inr (to_double (of_int i))
      | Inr p \<Rightarrow> ToNumber_primitive p)"

text \<open>\<^verbatim>\<open>String(value)\<close>: as \<^verbatim>\<open>ToString\<close>, but a symbol gives its descriptive string.\<close>

fun String_call :: "jsval \<Rightarrow> ustring result" where
  "String_call (JSym d) = Inr (units ''Symbol('' @ d @ units '')'')"
| "String_call v = ToString v"

text \<open>\<^verbatim>\<open>Boolean(value)\<close>, that is \<^verbatim>\<open>ToBoolean\<close>.\<close>

fun Boolean_call :: "jsval \<Rightarrow> bool" where
  "Boolean_call JUndefined = False"
| "Boolean_call JNull = False"
| "Boolean_call (JBool b) = b"
| "Boolean_call (JNum n) = (n \<noteq> Fin 0 \<and> n \<noteq> NegZero \<and> n \<noteq> NaN)"
| "Boolean_call (JBigInt i) = (i \<noteq> 0)"
| "Boolean_call (JStr s) = (s \<noteq> [])"
| "Boolean_call (JSym _) = True"
| "Boolean_call (JFun _) = True"
| "Boolean_call (JArr _) = True"
| "Boolean_call (JObj _) = True"

text \<open>
  \<^verbatim>\<open>BigInt(value)\<close>: a Number must be an integer (\<^verbatim>\<open>RangeError\<close> otherwise); a string
  must read as an integer literal (\<^verbatim>\<open>SyntaxError\<close> otherwise); \<^verbatim>\<open>undefined\<close>,
  \<^verbatim>\<open>null\<close> and symbols have no conversion (\<^verbatim>\<open>TypeError\<close>).
\<close>

fun ToBigInt_primitive :: "jsval \<Rightarrow> int result" where
  "ToBigInt_primitive (JNum (Fin q)) = (if of_int \<lfloor>q\<rfloor> = q then Inr \<lfloor>q\<rfloor> else Inl RangeError)"
| "ToBigInt_primitive (JNum NegZero) = Inr 0"
| "ToBigInt_primitive (JNum _) = Inl RangeError"
| "ToBigInt_primitive (JBool b) = Inr (if b then 1 else 0)"
| "ToBigInt_primitive (JBigInt i) = Inr i"
| "ToBigInt_primitive (JStr s) =
     (case StringToBigInt s of None \<Rightarrow> Inl SyntaxError | Some i \<Rightarrow> Inr i)"
| "ToBigInt_primitive _ = Inl TypeError"

definition BigInt_call :: "jsval \<Rightarrow> int result" where
  "BigInt_call v = (case ToPrimitive v of Inl e \<Rightarrow> Inl e | Inr p \<Rightarrow> ToBigInt_primitive p)"

text \<open>
  The binary \<^verbatim>\<open>+\<close>: both operands are made primitive; if either is then a string the
  result is the concatenation of their strings; otherwise both are made numeric and
  added, a BigInt only to a BigInt.
\<close>

fun is_string :: "jsval \<Rightarrow> bool" where
  "is_string (JStr _) = True"
| "is_string _ = False"

datatype numeric = NumericNumber jsnum | NumericBigInt int

definition ToNumeric_primitive :: "jsval \<Rightarrow> numeric result" where
  "ToNumeric_primitive p =
     (case p of
        JBigInt i \<Rightarrow> Inr (NumericBigInt i)
      | _ \<Rightarrow> (case ToNumber_primitive p of Inl e \<Rightarrow> Inl e | Inr x \<Rightarrow> Inr (NumericNumber x)))"

definition add_numeric :: "jsval \<Rightarrow> jsval \<Rightarrow> jsval result" where
  "add_numeric p q =
     (case ToNumeric_primitive p of
        Inl e \<Rightarrow> Inl e
      | Inr l \<Rightarrow>
          (case ToNumeric_primitive q of
             Inl e \<Rightarrow> Inl e
           | Inr r \<Rightarrow>
               (case (l, r) of
                  (NumericNumber x, NumericNumber y) \<Rightarrow> Inr (JNum (Number_add x y))
                | (NumericBigInt i, NumericBigInt j) \<Rightarrow> Inr (JBigInt (i + j))
                | _ \<Rightarrow> Inl TypeError)))"

definition js_plus :: "jsval \<Rightarrow> jsval \<Rightarrow> jsval result" where
  "js_plus a b =
     (case ToPrimitive a of
        Inl e \<Rightarrow> Inl e
      | Inr p \<Rightarrow>
          (case ToPrimitive b of
             Inl e \<Rightarrow> Inl e
           | Inr q \<Rightarrow>
               if is_string p \<or> is_string q then
                 (case ToString p of
                    Inl e \<Rightarrow> Inl e
                  | Inr s \<Rightarrow> (case ToString q of
                                Inl e \<Rightarrow> Inl e
                              | Inr t \<Rightarrow> Inr (JStr (s @ t))))
               else add_numeric p q))"

section \<open>JSON\<close>

subsection \<open>JSON.stringify\<close>

text \<open>
  \<^verbatim>\<open>QuoteJSONString\<close>: the double quote (code unit 34) and the backslash (92) are
  escaped, so are the control characters, by their short escape where one exists and by
  \<^verbatim>\<open>\uXXXX\<close> otherwise; a surrogate that is not half of a pair is escaped; every other
  code unit stands for itself.
\<close>

definition hex_digit :: "nat \<Rightarrow> nat" where
  "hex_digit n = (if n < 10 then 48 + n else 87 + n)"

definition unicode_escape :: "nat \<Rightarrow> ustring" where
  "unicode_escape c =
     [92, cu CHR ''u'', hex_digit (c div 4096 mod 16), hex_digit (c div 256 mod 16),
      hex_digit (c div 16 mod 16), hex_digit (c mod 16)]"

definition is_high_surrogate :: "nat \<Rightarrow> bool" where
  "is_high_surrogate c = (55296 \<le> c \<and> c \<le> 56319)"

definition is_low_surrogate :: "nat \<Rightarrow> bool" where
  "is_low_surrogate c = (56320 \<le> c \<and> c \<le> 57343)"

definition quote_unit :: "nat \<Rightarrow> ustring" where
  "quote_unit c =
     (if c = 8 then [92, cu CHR ''b'']
      else if c = 9 then [92, cu CHR ''t'']
      else if c = 10 then [92, cu CHR ''n'']
      else if c = 12 then [92, cu CHR ''f'']
      else if c = 13 then [92, cu CHR ''r'']
      else if c = 34 then [92, 34]
      else if c = 92 then [92, 92]
      else if c < 32 \<or> is_high_surrogate c \<or> is_low_surrogate c then unicode_escape c
      else [c])"

fun quote_units :: "ustring \<Rightarrow> ustring" where
  "quote_units [] = []"
| "quote_units (c # cs) =
     (if is_high_surrogate c \<and> cs \<noteq> [] \<and> is_low_surrogate (hd cs)
      then c # hd cs # quote_units (tl cs)
      else quote_unit c @ quote_units cs)"

definition QuoteJSONString :: "ustring \<Rightarrow> ustring" where
  "QuoteJSONString s = 34 # quote_units s @ [34]"

fun join_commas :: "ustring list \<Rightarrow> ustring" where
  "join_commas [] = []"
| "join_commas [t] = t"
| "join_commas (t # ts) = t @ cu CHR '','' # join_commas ts"

fun is_finite :: "jsnum \<Rightarrow> bool" where
  "is_finite (Fin _) = True"
| "is_finite NegZero = True"
| "is_finite _ = False"

text \<open>
  \<^verbatim>\<open>SerializeJSONProperty\<close>: the text of a value, \<open>None\<close> for a value that has none
  (\<^verbatim>\<open>undefined\<close>, a function, a symbol), \<^verbatim>\<open>TypeError\<close> for a BigInt.  A Number that
  is not finite is written \<^verbatim>\<open>null\<close>.  In an array an element without text is written
  \<^verbatim>\<open>null\<close>; in an object a property without text is left out, and so is every
  property keyed by a symbol.
\<close>

fun SerializeJSONProperty :: "jsval \<Rightarrow> ustring option result"
  and SerializeJSONArray :: "jsval list \<Rightarrow> ustring list result"
  and SerializeJSONObject :: "(propkey \<times> jsval) list \<Rightarrow> ustring list result" where
  "SerializeJSONProperty JUndefined = Inr None"
| "SerializeJSONProperty JNull = Inr (Some (units ''null''))"
| "SerializeJSONProperty (JBool b) = Inr (Some (if b then units ''true'' else units ''false''))"
| "SerializeJSONProperty (JNum n) =
     Inr (Some (if is_finite n then Number_toString n else units ''null''))"
| "SerializeJSONProperty (JBigInt _) = Inl TypeError"
| "SerializeJSONProperty (JStr s) = Inr (Some (QuoteJSONString s))"
| "SerializeJSONProperty (JSym _) = Inr None"
| "SerializeJSONProperty (JFun _) = Inr None"
| "SerializeJSONProperty (JArr xs) =
     (case SerializeJSONArray xs of
        Inl e \<Rightarrow> Inl e
      | Inr ts \<Rightarrow> Inr (Some (cu CHR ''['' # join_commas ts @ [cu CHR '']''])))"
| "SerializeJSONProperty (JObj ps) =
     (case SerializeJSONObject ps of
        Inl e \<Rightarrow> Inl e
      | Inr ms \<Rightarrow> Inr (Some (cu CHR ''{'' # join_commas ms @ [cu CHR ''}''])))"
| "SerializeJSONArray [] = Inr []"
| "SerializeJSONArray (x # xs) =
     (case SerializeJSONProperty x of
        Inl e \<Rightarrow> Inl e
      | Inr t \<Rightarrow>
          (case SerializeJSONArray xs of
             Inl e \<Rightarrow> Inl e
           | Inr ts \<Rightarrow> Inr ((case t of None \<Rightarrow> units ''null'' | Some u \<Rightarrow> u) # ts)))"
| "SerializeJSONObject [] = Inr []"
| "SerializeJSONObject ((SymKey _, _) # ps) = SerializeJSONObject ps"
| "SerializeJSONObject ((StrKey k, v) # ps) =
     (case SerializeJSONProperty v of
        Inl e \<Rightarrow> Inl e
      | Inr None \<Rightarrow> SerializeJSONObject ps
      | Inr (Some u) \<Rightarrow>
          (case SerializeJSONObject ps of
             Inl e \<Rightarrow> Inl e
           | Inr ms \<Rightarrow> Inr ((QuoteJSONString k @ cu CHR '':'' # u) # ms)))"

text \<open>\<^verbatim>\<open>JSON.stringify(value)\<close>, with no replacer and no indentation.\<close>

definition JSON_stringify :: "jsval \<Rightarrow> ustring option result" where
  "JSON_stringify v = SerializeJSONProperty v"

subsection \<open>JSON.parse\<close>

definition is_json_ws :: "nat \<Rightarrow> bool" where
  "is_json_ws c = (c = 9 \<or> c = 10 \<or> c = 13 \<or> c = 32)"

definition skip_ws :: "ustring \<Rightarrow> ustring" where
  "skip_ws s = dropWhile is_json_ws s"

text \<open>
  The characters of a JSON string after its opening quote, up to the closing quote:
  the decoded string and the text after the quote.  A control character may not stand
  unescaped; an escape is one of \<^verbatim>\<open>\" \\ \/ \b \f \n \r \t\<close> or \<^verbatim>\<open>\uXXXX\<close>.
\<close>

definition escape_char :: "nat \<Rightarrow> nat option" where
  "escape_char e =
     (if e = 34 \<or> e = 92 \<or> e = cu CHR ''/'' then Some e
      else if e = cu CHR ''b'' then Some 8
      else if e = cu CHR ''f'' then Some 12
      else if e = cu CHR ''n'' then Some 10
      else if e = cu CHR ''r'' then Some 13
      else if e = cu CHR ''t'' then Some 9
      else None)"

definition cons_string :: "nat \<Rightarrow> (ustring \<times> ustring) option \<Rightarrow> (ustring \<times> ustring) option" where
  "cons_string c r = map_option (\<lambda>(s, t). (c # s, t)) r"

fun json_string_body :: "ustring \<Rightarrow> (ustring \<times> ustring) option" where
  "json_string_body [] = None"
| "json_string_body (c # cs) =
     (if c = 34 then Some ([], cs)
      else if c = 92 then
        (case cs of
           [] \<Rightarrow> None
         | e # r \<Rightarrow>
             if e = cu CHR ''u'' then
               (if 4 \<le> length r \<and> list_all (is_radix_digit 16) (take 4 r)
                then cons_string (nat (radix_value 16 (take 4 r))) (json_string_body (drop 4 r))
                else None)
             else (case escape_char e of
                     None \<Rightarrow> None
                   | Some d \<Rightarrow> cons_string d (json_string_body r)))
      else if c < 32 then None
      else cons_string c (json_string_body cs))"

text \<open>
  A JSON number: an optional minus sign, an integer part without superfluous leading
  zero, an optional fraction and an optional exponent, each with at least one digit.
\<close>

definition json_exponent :: "ustring \<Rightarrow> (int \<times> ustring) option" where
  "json_exponent s =
     (if s \<noteq> [] \<and> (hd s = cu CHR ''e'' \<or> hd s = cu CHR ''E'') then
        (let r = tl s;
             neg = (r \<noteq> [] \<and> hd r = cu CHR ''-'');
             r' = (if r \<noteq> [] \<and> (hd r = cu CHR ''+'' \<or> hd r = cu CHR ''-'') then tl r else r);
             ds = takeWhile is_digit r'
         in if ds = [] then None
            else Some (if neg then - dec_value ds else dec_value ds, dropWhile is_digit r'))
      else Some (0, s))"

definition json_fraction :: "ustring \<Rightarrow> (ustring \<times> ustring) option" where
  "json_fraction s =
     (if s \<noteq> [] \<and> hd s = cu CHR ''.'' then
        (let fp = takeWhile is_digit (tl s)
         in if fp = [] then None else Some (fp, dropWhile is_digit (tl s)))
      else Some ([], s))"

definition json_unsigned :: "ustring \<Rightarrow> (jsnum \<times> ustring) option" where
  "json_unsigned s =
     (let ip = takeWhile is_digit s
      in if ip = [] \<or> (1 < length ip \<and> hd ip = cu CHR ''0'') then None
         else case json_fraction (dropWhile is_digit s) of
                None \<Rightarrow> None
              | Some (fp, r2) \<Rightarrow>
                  (case json_exponent r2 of
                     None \<Rightarrow> None
                   | Some (e, r3) \<Rightarrow>
                       Some (to_double (of_int (dec_value (ip @ fp)) * pow10 (e - int (length fp))),
                             r3)))"

definition json_number :: "ustring \<Rightarrow> (jsnum \<times> ustring) option" where
  "json_number s =
     (if s \<noteq> [] \<and> hd s = cu CHR ''-''
      then map_option (\<lambda>(x, r). (jsnum_neg x, r)) (json_unsigned (tl s))
      else json_unsigned s)"

text \<open>
  The properties of a parsed object are created in the order of the text: a key met
  again replaces the value where the key stands; a new array index is put among the
  indices, in ascending order, before every other key; a new other key goes last.
\<close>

definition is_array_index :: "ustring \<Rightarrow> bool" where
  "is_array_index k = (k \<noteq> [] \<and> list_all is_digit k \<and> (k = [cu CHR ''0''] \<or> hd k \<noteq> cu CHR ''0'')
                        \<and> dec_value k < 4294967295)"

fun insert_index :: "ustring \<Rightarrow> jsval \<Rightarrow> (propkey \<times> jsval) list \<Rightarrow> (propkey \<times> jsval) list" where
  "insert_index k v [] = [(StrKey k, v)]"
| "insert_index k v ((StrKey k', v') # ps) =
     (if is_array_index k' \<and> dec_value k' < dec_value k
      then (StrKey k', v') # insert_index k v ps
      else (StrKey k, v) # (StrKey k', v') # ps)"
| "insert_index k v ((SymKey k', v') # ps) = (StrKey k, v) # (SymKey k', v') # ps"

definition CreateDataProperty :: "(propkey \<times> jsval) list \<Rightarrow> ustring \<times> jsval \<Rightarrow> (propkey \<times> jsval) list" where
  "CreateDataProperty ps kv =
     (let k = fst kv; v = snd kv in
      if StrKey k \<in> fst ` set ps
      then map (\<lambda>(k', v'). if k' = StrKey k then (k', v) else (k', v')) ps
      else if is_array_index k then insert_index k v ps
      else ps @ [(StrKey k, v)])"

definition object_of :: "(ustring \<times> jsval) list \<Rightarrow> jsval" where
  "object_of ms = JObj (foldl CreateDataProperty [] ms)"

text \<open>
  The parser, by recursive descent.  Each call of \<open>parse_value\<close> reads one value and
  returns it with the text that follows.  The first argument bounds the depth of the
  recursion; \<open>JSON_parse\<close> starts with more than the text can use.
\<close>

datatype 'a parsed = Parsed 'a ustring | Malformed | Exhausted

fun parse_value :: "nat \<Rightarrow> ustring \<Rightarrow> jsval parsed"
  and parse_elements :: "nat \<Rightarrow> ustring \<Rightarrow> jsval list parsed"
  and parse_members :: "nat \<Rightarrow> ustring \<Rightarrow> (ustring \<times> jsval) list parsed" where
  "parse_value 0 s = Exhausted"
| "parse_value (Suc f) s =
     (let t = skip_ws s in
      if t = [] then Malformed
      else if hd t = cu CHR ''{'' then
        (if skip_ws (tl t) \<noteq> [] \<and> hd (skip_ws (tl t)) = cu CHR ''}''
         then Parsed (JObj []) (tl (skip_ws (tl t)))
         else (case parse_members f (tl t) of
                 Parsed ms r \<Rightarrow> Parsed (object_of ms) r
               | Malformed \<Rightarrow> Malformed
               | Exhausted \<Rightarrow> Exhausted))
      else if hd t = cu CHR ''['' then
        (if skip_ws (tl t) \<noteq> [] \<and> hd (skip_ws (tl t)) = cu CHR '']''
         then Parsed (JArr []) (tl (skip_ws (tl t)))
         else (case parse_elements f (tl t) of
                 Parsed vs r \<Rightarrow> Parsed (JArr vs) r
               | Malformed \<Rightarrow> Malformed
               | Exhausted \<Rightarrow> Exhausted))
      else if hd t = 34 then
        (case json_string_body (tl t) of
           None \<Rightarrow> Malformed
         | Some (str, r) \<Rightarrow> Parsed (JStr str) r)
      else if starts_with (units ''true'') t then Parsed (JBool True) (drop 4 t)
      else if starts_with (units ''false'') t then Parsed (JBool False) (drop 5 t)
      else if starts_with (units ''null'') t then Parsed JNull (drop 4 t)
      else (case json_number t of
              None \<Rightarrow> Malformed
            | Some (n, r) \<Rightarrow> Parsed (JNum n) r))"
| "parse_elements 0 s = Exhausted"
| "parse_elements (Suc f) s =
     (case parse_value f s of
        Parsed v r \<Rightarrow>
          (let t = skip_ws r in
           if t = [] then Malformed
           else if hd t = cu CHR '','' then
             (case parse_elements f (tl t) of
                Parsed vs u \<Rightarrow> Parsed (v # vs) u
              | Malformed \<Rightarrow> Malformed
              | Exhausted \<Rightarrow> Exhausted)
           else if hd t = cu CHR '']'' then Parsed [v] (tl t)
           else Malformed)
      | Malformed \<Rightarrow> Malformed
      | Exhausted \<Rightarrow> Exhausted)"
| "parse_members 0 s = Exhausted"
| "parse_members (Suc f) s =
     (let t = skip_ws s in
      if t = [] \<or> hd t \<noteq> 34 then Malformed
      else case json_string_body (tl t) of
             None \<Rightarrow> Malformed
           | Some (k, r) \<Rightarrow>
               (let r1 = skip_ws r in
                if r1 = [] \<or> hd r1 \<noteq> cu CHR '':'' then Malformed
                else case parse_value f (tl r1) of
                       Parsed v r2 \<Rightarrow>
                         (let t2 = skip_ws r2 in
                          if t2 = [] then Malformed
                          else if hd t2 = cu CHR '','' then
                            (case parse_members f (tl t2) of
                               Parsed ms u \<Rightarrow> Parsed ((k, v) # ms) u
                             | Malformed \<Rightarrow> Malformed
                             | Exhausted \<Rightarrow> Exhausted)
                          else if hd t2 = cu CHR ''}'' then Parsed [(k, v)] (tl t2)
                          else Malformed)
                     | Malformed \<Rightarrow> Malformed
                     | Exhausted \<Rightarrow> Exhausted))"

text \<open>
  \<^verbatim>\<open>JSON.parse(text)\<close>: the text is one value between optional white space;
  \<^verbatim>\<open>SyntaxError\<close> otherwise.
\<close>

definition JSON_parse :: "ustring \<Rightarrow> jsval result" where
  "JSON_parse s =
     (case parse_value (2 * length s + 2) s of
        Parsed v r \<Rightarrow> if skip_ws r = [] then Inr v else Inl SyntaxError
      | Malformed \<Rightarrow> Inl SyntaxError
      | Exhausted \<Rightarrow> Inl SyntaxError)"

section \<open>The library\<close>

text \<open>
  The functions of \<^verbatim>\<open>src/index.js\<close>, in the order of the file.  A call returns
  \<open>Inr\<close> its value or \<open>Inl\<close> the exception it throws.  In a template literal the
  double quote is the code unit 34.
\<close>

definition quoted :: "ustring \<Rightarrow> ustring" where
  "quoted s = 34 # s @ [34]"

text \<open>\<^verbatim>\<open>try { body } catch (e) { handler }\<close>.\<close>

definition try_catch :: "'a result \<Rightarrow> (js_error \<Rightarrow> 'a result) \<Rightarrow> 'a result" where
  "try_catch body handler = (case body of Inl e \<Rightarrow> handler e | Inr v \<Rightarrow> Inr v)"

subsection \<open>addValues\<close>

text \<open>
  \<^verbatim>\<open>
  function addValues(a, b) {
    const typeA = typeof a;
    const typeB = typeof b;
    if (Array.isArray(a) && Array.isArray(b)) {
      return a.concat(b);
    }
    if (
      (typeA === "object" && a !== null && !Array.isArray(a)) ||
      (typeB === "object" && b !== null && !Array.isArray(b))
    ) {
      throw new Error(`Cannot add values of type "${typeA}" and "${typeB}".`);
    }
    if (a === undefined || b === undefined) {
      throw new Error("Cannot add undefined values.");
    }
    return a + b;
  }
  \<close>
  \<^verbatim>\<open>xs.concat(y)\<close> is a new array: the elements of \<open>xs\<close>, then those of \<open>y\<close> when \<open>y\<close> is
  an array and \<open>y\<close> itself otherwise.
\<close>

fun elements :: "jsval \<Rightarrow> jsval list" where
  "elements (JArr xs) = xs"
| "elements _ = []"

definition Array_concat :: "jsval list \<Rightarrow> jsval \<Rightarrow> jsval" where
  "Array_concat xs y = JArr (xs @ (if isArray y then elements y else [y]))"

definition addValues :: "jsval \<Rightarrow> jsval \<Rightarrow> jsval result" where
  "addValues a b =
     (let typeA = typeof a; typeB = typeof b in
      if isArray a \<and> isArray b then Inr (Array_concat (elements a) b)
      else if (typeA = units ''object'' \<and> a \<noteq> JNull \<and> \<not> isArray a)
            \<or> (typeB = units ''object'' \<and> b \<noteq> JNull \<and> \<not> isArray b)
      then Inl (Error (units ''Cannot add values of type '' @ quoted typeA
                         @ units '' and '' @ quoted typeB @ units ''.''))
      else if a = JUndefined \<or> b = JUndefined
      then Inl (Error (units ''Cannot add undefined values.''))
      else js_plus a b)"

subsection \<open>stringifyValue\<close>

text \<open>
  \<^verbatim>\<open>
  function stringifyValue(val) {
    const primitives = ["string", "number", "boolean", "bigint", "symbol", "undefined", "null"];
    if (primitives.includes(typeof val)) {
      return String(val);
    }
    return JSON.stringify(val);
  }
  \<close>
  \<^verbatim>\<open>JSON.stringify\<close> returns \<^verbatim>\<open>undefined\<close>, not a string, for a value without text.
\<close>

definition primitives :: "ustring list" where
  "primitives = [units ''string'', units ''number'', units ''boolean'', units ''bigint'',
                 units ''symbol'', units ''undefined'', units ''null'']"

definition stringifyValue :: "jsval \<Rightarrow> jsval result" where
  "stringifyValue val =
     (if typeof val \<in> set primitives then
        (case String_call val of Inl e \<Rightarrow> Inl e | Inr s \<Rightarrow> Inr (JStr s))
      else
        (case JSON_stringify val of
           Inl e \<Rightarrow> Inl e
         | Inr None \<Rightarrow> Inr JUndefined
         | Inr (Some s) \<Rightarrow> Inr (JStr s)))"

subsection \<open>invertBoolean\<close>

text \<open>
  \<^verbatim>\<open>
  function invertBoolean(val) {
    if (typeof val !== "boolean") {
      throw new Error("Argument is not a boolean.");
    }
    return !val;
  }
  \<close>
\<close>

fun invertBoolean :: "jsval \<Rightarrow> jsval result" where
  "invertBoolean (JBool b) = Inr (JBool (\<not> b))"
| "invertBoolean _ = Inl (Error (units ''Argument is not a boolean.''))"

subsection \<open>convertToNumber\<close>

text \<open>
  \<^verbatim>\<open>
  function convertToNumber(value) {
    if (typeof value === "number") { return value; }
    if (typeof value === "string") {
      const parsed = value.includes(".") ? parseFloat(value) : parseInt(value, 10);
      if (isNaN(parsed)) { throw new Error("Cannot convert string to number."); }
      return parsed;
    }
    if (typeof value === "boolean") { return value ? 1 : 0; }
    if (value === null) { return 0; }
    if (typeof value === "undefined") { throw new Error("Cannot convert undefined to number."); }
    if (typeof value === "object") {
      const num = Number(value);
      if (!isNaN(num)) { return num; }
      throw new Error("Cannot convert object to number.");
    }
    throw new Error(`Cannot convert type "${typeof value}" to number.`);
  }
  \<close>
  The tests on \<^verbatim>\<open>typeof value\<close> are the patterns below, in the order of the source; the
  last equation is for the remaining types (BigInt, symbol, function).
\<close>

definition object_to_number :: "jsval \<Rightarrow> jsval result" where
  "object_to_number v =
     (case Number_call v of
        Inl e \<Rightarrow> Inl e
      | Inr num \<Rightarrow> if \<not> isNaN num then Inr (JNum num)
                   else Inl (Error (units ''Cannot convert object to number.'')))"

fun convertToNumber :: "jsval \<Rightarrow> jsval result" where
  "convertToNumber (JNum n) = Inr (JNum n)"
| "convertToNumber (JStr s) =
     (let parsed = (if cu CHR ''.'' \<in> set s then parseFloat s else parseInt s 10)
      in if isNaN parsed then Inl (Error (units ''Cannot convert string to number.''))
         else Inr (JNum parsed))"
| "convertToNumber (JBool b) = Inr (JNum (Fin (if b then 1 else 0)))"
| "convertToNumber JNull = Inr (JNum (Fin 0))"
| "convertToNumber JUndefined = Inl (Error (units ''Cannot convert undefined to number.''))"
| "convertToNumber (JArr xs) = object_to_number (JArr xs)"
| "convertToNumber (JObj ps) = object_to_number (JObj ps)"
| "convertToNumber v =
     Inl (Error (units ''Cannot convert type '' @ quoted (typeof v) @ units '' to number.''))"

subsection \<open>coerceToType\<close>

text \<open>
  \<^verbatim>\<open>
  function coerceToType(value, type) {
    switch (type) {
      case "string": return String(value);
      case "number": {
        const num = Number(value);
        if (isNaN(num)) { throw new Error(`Cannot coerce value to number: ${value}`); }
        return num;
      }
      case "boolean": return Boolean(value);
      case "bigint": {
        try { return BigInt(value); }
        catch (err) { throw new Error(`Cannot coerce value to bigint: ${value}`); }
      }
      case "object":
        if (value === null || typeof value === "object") { return value; }
        throw new Error(`Cannot coerce value of type "${typeof value}" to object.`);
      case "symbol":
        if (typeof value === "symbol") { return value; }
        throw new Error("Cannot coerce to symbol unless value is already a symbol.");
      case "undefined":
        if (typeof value === "undefined") { return undefined; }
        throw new Error(`Cannot coerce value of type "${typeof value}" to undefined.`);
      default:
        throw new Error(`Unsupported target type: "${type}".`);
    }
  }
  \<close>
  A template literal converts \<^verbatim>\<open>value\<close> by \<^verbatim>\<open>ToString\<close>, which may itself throw.
\<close>

definition throw_with_value :: "ustring \<Rightarrow> jsval \<Rightarrow> jsval result" where
  "throw_with_value msg v =
     (case ToString v of Inl e \<Rightarrow> Inl e | Inr s \<Rightarrow> Inl (Error (msg @ s)))"

definition coerceToType :: "jsval \<Rightarrow> ustring \<Rightarrow> jsval result" where
  "coerceToType v ty =
     (if ty = units ''string'' then
        (case String_call v of Inl e \<Rightarrow> Inl e | Inr s \<Rightarrow> Inr (JStr s))
      else if ty = units ''number'' then
        (case Number_call v of
           Inl e \<Rightarrow> Inl e
         | Inr num \<Rightarrow> if isNaN num then throw_with_value (units ''Cannot coerce value to number: '') v
                      else Inr (JNum num))
      else if ty = units ''boolean'' then Inr (JBool (Boolean_call v))
      else if ty = units ''bigint'' then
        try_catch (case BigInt_call v of Inl e \<Rightarrow> Inl e | Inr i \<Rightarrow> Inr (JBigInt i))
          (\<lambda>err. throw_with_value (units ''Cannot coerce value to bigint: '') v)
      else if ty = units ''object'' then
        (if v = JNull \<or> typeof v = units ''object'' then Inr v
         else Inl (Error (units ''Cannot coerce value of type '' @ quoted (typeof v)
                            @ units '' to object.'')))
      else if ty = units ''symbol'' then
        (if typeof v = units ''symbol'' then Inr v
         else Inl (Error (units ''Cannot coerce to symbol unless value is already a symbol.'')))
      else if ty = units ''undefined'' then
        (if typeof v = units ''undefined'' then Inr JUndefined
         else Inl (Error (units ''Cannot coerce value of type '' @ quoted (typeof v)
                            @ units '' to undefined.'')))
      else Inl (Error (units ''Unsupported target type: '' @ quoted ty @ units ''.'')))"

subsection \<open>safeJsonParse\<close>

text \<open>
  \<^verbatim>\<open>
  function safeJsonParse(str, fallback = null) {
    try {
      return JSON.parse(str);
    } catch (e) {
      return fallback;
    }
  }
  \<close>
  The default \<^verbatim>\<open>null\<close> stands in when the second argument is omitted, that is, when it is
  \<^verbatim>\<open>undefined\<close>.  \<^verbatim>\<open>JSON.parse\<close> converts its argument with \<^verbatim>\<open>ToString\<close> first.
\<close>

definition JSON_parse_call :: "jsval \<Rightarrow> jsval result" where
  "JSON_parse_call str = (case ToString str of Inl e \<Rightarrow> Inl e | Inr s \<Rightarrow> JSON_parse s)"

definition safeJsonParse :: "jsval \<Rightarrow> jsval \<Rightarrow> jsval result" where
  "safeJsonParse str fallback_arg =
     (let fallback = (if fallback_arg = JUndefined then JNull else fallback_arg)
      in try_catch (JSON_parse_call str) (\<lambda>e. Inr fallback))"

section \<open>Notions used by the properties\<close>

text \<open>A plain object: an object that is neither \<^verbatim>\<open>null\<close> nor an array.\<close>

fun is_plain_object :: "jsval \<Rightarrow> bool" where
  "is_plain_object (JObj _) = True"
| "is_plain_object _ = False"

text \<open>
  Where the numeral of a string starts: after the leading white space and one optional
  sign.  A string has an integer prefix when a decimal digit stands there, and a decimal
  prefix when \<^verbatim>\<open>Infinity\<close>, a digit, or a point followed by a digit stands there.
\<close>

definition after_sign :: "ustring \<Rightarrow> ustring" where
  "after_sign s =
     (let t = trim_start s
      in if t \<noteq> [] \<and> (hd t = cu CHR ''+'' \<or> hd t = cu CHR ''-'') then tl t else t)"

definition has_integer_prefix :: "ustring \<Rightarrow> bool" where
  "has_integer_prefix s = (after_sign s \<noteq> [] \<and> is_digit (hd (after_sign s)))"

definition has_decimal_prefix :: "ustring \<Rightarrow> bool" where
  "has_decimal_prefix s =
     (let t = after_sign s
      in starts_with (units ''Infinity'') t
         \<or> (t \<noteq> [] \<and> is_digit (hd t))
         \<or> (t \<noteq> [] \<and> hd t = cu CHR ''.'' \<and> tl t \<noteq> [] \<and> is_digit (hd (tl t))))"

text \<open>
  What \<^verbatim>\<open>JSON.stringify\<close> keeps of a value and what it drops.  Of an object it drops the
  properties keyed by a symbol and the properties whose value is a function;
  \<open>strip v\<close> is \<open>v\<close> without them, at every depth.
\<close>

fun is_function :: "jsval \<Rightarrow> bool" where
  "is_function (JFun _) = True"
| "is_function _ = False"


fun strip :: "jsval \<Rightarrow> jsval"
  and strip_elements :: "jsval list \<Rightarrow> jsval list"
  and strip_members :: "(propkey \<times> jsval) list \<Rightarrow> (ustring \<times> jsval) list" where
  "strip (JArr xs) = JArr (strip_elements xs)"
| "strip (JObj ps) = JObj (map (\<lambda>(k, v). (StrKey k, v)) (strip_members ps))"
| "strip JUndefined = JUndefined"
| "strip JNull = JNull"
| "strip (JBool b) = JBool b"
| "strip (JNum n) = JNum n"
| "strip (JBigInt i) = JBigInt i"
| "strip (JStr s) = JStr s"
| "strip (JSym d) = JSym d"
| "strip (JFun src) = JFun src"
| "strip_elements [] = []"
| "strip_elements (x # xs) = strip x # strip_elements xs"
| "strip_members [] = []"
| "strip_members ((SymKey _, _) # ps) = strip_members ps"
| "strip_members ((StrKey k, v) # ps) =
     (if is_function v then strip_members ps else (k, strip v) # strip_members ps)"






definition value_start :: "ustring \<Rightarrow> bool" where
  "value_start t = (t \<noteq> [] \<and> \<not> is_json_ws (hd t) \<and> hd t \<noteq> cu CHR '']'' \<and> hd t \<noteq> cu CHR ''}'')"





section \<open>Properties of addValues\<close>

lemma typeof_object_iff:
  "typeof v = units ''object'' \<longleftrightarrow> v = JNull \<or> isArray v \<or> is_plain_object v"
  by (cases v) (simp_all add: units_def)

text \<open>
  C2.  For all arrays \<open>a\<close> and \<open>b\<close>, \<open>addValues a b\<close> returns the array of the elements of
  \<open>a\<close> followed by the elements of \<open>b\<close>, every element kept in its place and none dropped,
  so its length is the sum of the two lengths.  The result is a value of its own: the
  operands are not changed.
\<close>

theorem addValues_arrays:
  "addValues (JArr xs) (JArr ys) = Inr (JArr (xs @ ys))
   \<and> length (xs @ ys) = length xs + length ys"
  by (simp add: addValues_def Array_concat_def)

text \<open>
  C3.  When one operand is an array and the other a plain object, on either side,
  \<open>addValues\<close> throws the error whose message is the template
  \<^verbatim>\<open>Cannot add values of type "{typeA}" and "{typeB}".\<close> filled with the \<^verbatim>\<open>typeof\<close> names
  of the operands; the name reported for the array is \<^verbatim>\<open>object\<close>.
\<close>

theorem addValues_array_object:
  "addValues (JArr xs) (JObj ps) =
     Inl (Error (units ''Cannot add values of type '' @ quoted (units ''object'')
                   @ units '' and '' @ quoted (units ''object'') @ units ''.''))
   \<and> addValues (JObj ps) (JArr xs) =
     Inl (Error (units ''Cannot add values of type '' @ quoted (units ''object'')
                   @ units '' and '' @ quoted (units ''object'') @ units ''.''))
   \<and> typeof (JArr xs) = units ''object''"
  by (simp add: addValues_def Let_def)

text \<open>
  C8.  When neither operand is a plain object and the operands are not two arrays, and
  either operand (or both) is \<^verbatim>\<open>undefined\<close>, \<open>addValues\<close> throws the error with the
  message \<^verbatim>\<open>Cannot add undefined values.\<close>, whichever side is undefined.
\<close>

theorem addValues_undefined:
  assumes "a = JUndefined \<or> b = JUndefined"
    and "\<not> is_plain_object a" and "\<not> is_plain_object b"
    and "\<not> (isArray a \<and> isArray b)"
  shows "addValues a b = Inl (Error (units ''Cannot add undefined values.''))"
  using assms by (auto simp add: addValues_def typeof_object_iff Let_def)

theorem addValues_undefined_witness:
  "addValues JUndefined (JNum (Fin 1)) = Inl (Error (units ''Cannot add undefined values.''))
   \<and> addValues (JNum (Fin 1)) JUndefined = Inl (Error (units ''Cannot add undefined values.''))
   \<and> addValues JUndefined JUndefined = Inl (Error (units ''Cannot add undefined values.''))
   \<and> addValues (JArr []) JUndefined = Inl (Error (units ''Cannot add undefined values.''))"
  using addValues_undefined [of JUndefined "JNum (Fin 1)"]
    addValues_undefined [of "JNum (Fin 1)" JUndefined]
    addValues_undefined [of JUndefined JUndefined]
    addValues_undefined [of "JArr []" JUndefined]
  by simp

section \<open>Properties of stringifyValue\<close>

text \<open>
  C9.  For a bare function \<open>stringifyValue\<close> does not throw: it returns \<^verbatim>\<open>undefined\<close>
  itself, which is not the string \<^verbatim>\<open>"undefined"\<close>.
\<close>

theorem stringifyValue_function:
  "stringifyValue (JFun src) = Inr JUndefined
   \<and> stringifyValue (JFun src) \<noteq> Inr (JStr (units ''undefined''))"
  by (simp add: stringifyValue_def primitives_def JSON_stringify_def units_def)

section \<open>Properties of invertBoolean\<close>

text \<open>
  C10.  invertBoolean is an involution on booleans: for every boolean \<open>b\<close> the call returns
  a boolean \<open>b'\<close> different from \<open>b\<close>, and inverting \<open>b'\<close> returns \<open>b\<close>.
\<close>

theorem invertBoolean_involution:
  "\<exists>b'. invertBoolean (JBool b) = Inr (JBool b') \<and> b' \<noteq> b
      \<and> invertBoolean (JBool b') = Inr (JBool b)"
  by simp

section \<open>Properties of convertToNumber\<close>

text \<open>
  C5, as stated: for every Number \<open>x\<close>,
  \<^verbatim>\<open>convertToNumber(convertToNumber(x)) === convertToNumber(x)\<close>.  This fails at \<open>NaN\<close>,
  which is a Number (\<^verbatim>\<open>typeof NaN\<close> is \<^verbatim>\<open>number\<close>): it is returned as it is, and \<open>NaN\<close> is
  not \<^verbatim>\<open>===\<close> to itself.
\<close>

theorem convertToNumber_NaN_not_equal:
  "convertToNumber (JNum NaN) = Inr (JNum NaN) \<and> \<not> Number_equal NaN NaN"
  by simp

text \<open>
  C5, amended.  Every Number is returned unchanged, \<open>NaN\<close> included, so converting twice
  returns the same value as converting once; the result is \<^verbatim>\<open>===\<close> to the input for every
  Number but \<open>NaN\<close>.
\<close>

theorem convertToNumber_numeric:
  "convertToNumber (JNum n) = Inr (JNum n) \<and> (Number_equal n n \<longleftrightarrow> \<not> isNaN n)"
  by (cases n) simp_all

subsection \<open>Strings\<close>

lemmas scan_defs = units_def trim_def trim_start_def is_ws_def starts_with_def radix_digit_def
  is_radix_digit_def radix_value_def exponent_part_def unsigned_decimal_def signed_decimal_def
  non_decimal_def non_decimal_radix_def

lemma to_double_not_NaN: "to_double q \<noteq> NaN"
  by (simp add: to_double_def Let_def)

lemma jsnum_neg_NaN_iff: "jsnum_neg n = NaN \<longleftrightarrow> n = NaN"
  by (cases n) simp_all

lemma takeWhile_Nil_hd: "takeWhile P xs = [] \<longleftrightarrow> xs = [] \<or> \<not> P (hd xs)"
  by (cases xs) simp_all

lemma dropWhile_id_hd: "xs = [] \<or> \<not> P (hd xs) \<Longrightarrow> dropWhile P xs = xs"
  by (cases xs) auto

lemma not_digit_point: "\<not> is_digit (cu CHR ''.'')"
  by (simp add: is_radix_digit_def radix_digit_def)

lemma not_digit_I: "\<not> is_digit (cu CHR ''I'')"
  by (simp add: is_radix_digit_def radix_digit_def)

lemma starts_with_Infinity_hd:
  "starts_with (units ''Infinity'') t \<Longrightarrow> t \<noteq> [] \<and> hd t = cu CHR ''I''"
  by (cases t) (auto simp add: starts_with_def units_def)

lemma unsigned_decimal_None_iff:
  "unsigned_decimal t = None \<longleftrightarrow>
     \<not> (starts_with (units ''Infinity'') t
        \<or> (t \<noteq> [] \<and> is_digit (hd t))
        \<or> (t \<noteq> [] \<and> hd t = cu CHR ''.'' \<and> tl t \<noteq> [] \<and> is_digit (hd (tl t))))"
proof (cases "starts_with (units ''Infinity'') t")
  case True
  then show ?thesis by (simp add: unsigned_decimal_def)
next
  case noinf: False
  show ?thesis
  proof (cases "t = [] \<or> \<not> is_digit (hd t)")
    case True
    then have ip: "takeWhile is_digit t = []" and r1: "dropWhile is_digit t = t"
      by (simp_all add: takeWhile_Nil_hd dropWhile_id_hd)
    show ?thesis
      using True noinf
      by (auto simp add: unsigned_decimal_def Let_def ip r1 takeWhile_Nil_hd not_digit_point
          split: prod.splits)
  next
    case False
    then have ip: "takeWhile is_digit t \<noteq> []"
      by (simp add: takeWhile_Nil_hd)
    show ?thesis
      using False noinf ip
      by (auto simp add: unsigned_decimal_def Let_def split: prod.splits)
  qed
qed

lemma unsigned_decimal_not_NaN: "unsigned_decimal t = Some (n, r) \<Longrightarrow> n \<noteq> NaN"
  by (auto simp add: unsigned_decimal_def Let_def to_double_not_NaN
      split: if_splits prod.splits)

lemma signed_decimal_not_NaN: "signed_decimal t = Some (n, r) \<Longrightarrow> n \<noteq> NaN"
  by (cases t)
    (auto simp add: signed_decimal_def jsnum_neg_NaN_iff
      dest: unsigned_decimal_not_NaN split: if_splits)

lemma signed_decimal_None_iff:
  "signed_decimal (trim_start s) = None \<longleftrightarrow> \<not> has_decimal_prefix s"
proof (cases "trim_start s")
  case Nil
  then show ?thesis
    by (simp add: signed_decimal_def has_decimal_prefix_def after_sign_def starts_with_def units_def)
next
  case (Cons c r)
  then show ?thesis
    by (simp add: signed_decimal_def has_decimal_prefix_def after_sign_def
        unsigned_decimal_None_iff Let_def)
qed

lemma parseFloat_NaN_iff: "isNaN (parseFloat s) \<longleftrightarrow> \<not> has_decimal_prefix s"
proof (cases "signed_decimal (trim_start s)")
  case None
  then show ?thesis
    using signed_decimal_None_iff [of s] by (simp add: parseFloat_def)
next
  case (Some p)
  obtain n r where p: "p = (n, r)" by (cases p)
  have "n \<noteq> NaN" using Some p signed_decimal_not_NaN by blast
  then have "\<not> isNaN n" by (cases n) simp_all
  moreover have "has_decimal_prefix s"
    using signed_decimal_None_iff [of s] Some by auto
  ultimately show ?thesis using Some p by (simp add: parseFloat_def)
qed

lemma parseInt_10_NaN_iff: "isNaN (parseInt s 10) \<longleftrightarrow> \<not> has_integer_prefix s"
proof -
  have nn: "\<not> isNaN (to_double q)" for q
    using to_double_not_NaN [of q] by (cases "to_double q") simp_all
  show ?thesis
    by (auto simp add: parseInt_def has_integer_prefix_def after_sign_def Let_def
        takeWhile_Nil_hd nn)
qed

lemma to_double_half: "to_double (1 / 2) = Fin (1 / 2)"
  by code_simp

lemma parseFloat_point5abc: "parseFloat (units ''.5abc'') = Fin (1 / 2)"
  by (simp add: parseFloat_def scan_defs Let_def pow10_def to_double_half)

text \<open>
  C1, as stated: every string that is not numeric and not integer-like makes
  \<open>convertToNumber\<close> throw.  The string \<^verbatim>\<open>.5abc\<close> is not numeric (\<^verbatim>\<open>Number(".5abc")\<close> is
  \<open>NaN\<close>) and not integer-like (\<^verbatim>\<open>parseInt(".5abc", 10)\<close> is \<open>NaN\<close>); it contains a point,
  so \<^verbatim>\<open>parseFloat\<close> reads its prefix \<^verbatim>\<open>.5\<close>, and \<open>convertToNumber\<close> returns \<open>0.5\<close>.
\<close>

theorem convertToNumber_point5abc:
  "StringToNumber (units ''.5abc'') = NaN
   \<and> parseInt (units ''.5abc'') 10 = NaN
   \<and> convertToNumber (JStr (units ''.5abc'')) = Inr (JNum (Fin (1 / 2)))"
proof -
  have "StringToNumber (units ''.5abc'') = NaN"
    by (simp add: StringToNumber_def scan_defs Let_def)
  moreover have "parseInt (units ''.5abc'') 10 = NaN"
    by (simp add: parseInt_def scan_defs Let_def)
  moreover have "convertToNumber (JStr (units ''.5abc'')) = Inr (JNum (Fin (1 / 2)))"
    using parseFloat_point5abc by (simp add: units_def)
  ultimately show ?thesis by simp
qed

text \<open>
  C1, amended.  A string that contains a decimal point is read by \<^verbatim>\<open>parseFloat\<close>, any
  other string by \<^verbatim>\<open>parseInt\<close> in base 10; either reads the longest numeral at the start
  of the string and ignores what follows.  \<open>convertToNumber\<close> throws the error with the
  message \<^verbatim>\<open>Cannot convert string to number.\<close> exactly when there is no such numeral:
  when, after leading white space and an optional sign, the string does not start with a
  decimal digit, nor, if it contains a point, with a point followed by a digit or with
  \<^verbatim>\<open>Infinity\<close>.  Every other string is converted to the value of its prefix.
\<close>

theorem convertToNumber_string:
  "convertToNumber (JStr s) =
     (if cu CHR ''.'' \<in> set s
      then (if has_decimal_prefix s then Inr (JNum (parseFloat s))
            else Inl (Error (units ''Cannot convert string to number.'')))
      else (if has_integer_prefix s then Inr (JNum (parseInt s 10))
            else Inl (Error (units ''Cannot convert string to number.''))))"
  by (simp add: parseFloat_NaN_iff parseInt_10_NaN_iff Let_def)

section \<open>Properties of coerceToType\<close>

text \<open>
  C6, as stated: \<^verbatim>\<open>coerceToType(value, "boolean")\<close> is false exactly for the empty string,
  \<open>0\<close>, \<^verbatim>\<open>null\<close>, \<^verbatim>\<open>undefined\<close> and \<^verbatim>\<open>false\<close>.  This fails at \<open>NaN\<close>, which is none of
  them and gives false.
\<close>

theorem coerce_boolean_NaN:
  "coerceToType (JNum NaN) (units ''boolean'') = Inr (JBool False)
   \<and> JNum NaN \<notin> {JStr [], JNum (Fin 0), JNum NegZero, JNull, JUndefined, JBool False}"
  by (simp add: coerceToType_def units_def)

text \<open>
  C6, amended.  For every value \<^verbatim>\<open>coerceToType(value, "boolean")\<close> returns a boolean and
  never throws; the boolean is false exactly for the empty string, the Numbers \<open>0\<close>,
  \<open>-0\<close> and \<open>NaN\<close>, the BigInt \<open>0\<close>, \<^verbatim>\<open>null\<close>, \<^verbatim>\<open>undefined\<close> and \<^verbatim>\<open>false\<close>.
\<close>

theorem coerce_boolean_total:
  "\<exists>b. coerceToType v (units ''boolean'') = Inr (JBool b)
     \<and> (b = False \<longleftrightarrow>
          v = JStr [] \<or> v = JNum (Fin 0) \<or> v = JNum NegZero \<or> v = JNum NaN
          \<or> v = JBigInt 0 \<or> v = JNull \<or> v = JUndefined \<or> v = JBool False)"
  by (cases v) (auto simp add: coerceToType_def units_def)

section \<open>The round trip through JSON\<close>

subsection \<open>Strings\<close>

lemma radix_digit_hex_digit: "n < 16 \<Longrightarrow> radix_digit (hex_digit n) = n"
  by (auto simp add: radix_digit_def hex_digit_def)

lemma hex_digit_is_hex: "n < 16 \<Longrightarrow> is_radix_digit 16 (hex_digit n)"
  by (simp add: is_radix_digit_def radix_digit_hex_digit)

lemma nibbles:
  fixes c :: nat
  assumes "c < 65536"
  shows "((c div 4096 mod 16 * 16 + c div 256 mod 16) * 16 + c div 16 mod 16) * 16 + c mod 16 = c"
proof -
  have e2: "c div 256 = c div 16 div 16" and e3: "c div 4096 = c div 16 div 16 div 16"
    by (simp_all add: div_mult2_eq)
  have small: "c div 4096 mod 16 = c div 4096"
    using assms by simp
  have d1: "c div 16 * 16 + c mod 16 = c"
    and d2: "c div 16 div 16 * 16 + c div 16 mod 16 = c div 16"
    and d3: "c div 16 div 16 div 16 * 16 + c div 16 div 16 mod 16 = c div 16 div 16"
    by simp_all
  show ?thesis
    unfolding small unfolding e2 e3 unfolding d3 d2 d1 ..
qed

lemma unicode_escape_value:
  assumes "c < 65536"
  shows "nat (radix_value 16 [hex_digit (c div 4096 mod 16), hex_digit (c div 256 mod 16),
      hex_digit (c div 16 mod 16), hex_digit (c mod 16)]) = c"
proof -
  have "radix_value 16 [hex_digit (c div 4096 mod 16), hex_digit (c div 256 mod 16),
      hex_digit (c div 16 mod 16), hex_digit (c mod 16)]
    = int (((c div 4096 mod 16 * 16 + c div 256 mod 16) * 16 + c div 16 mod 16) * 16 + c mod 16)"
    by (simp add: radix_value_def radix_digit_hex_digit)
  also have "\<dots> = int c"
    by (rule arg_cong [OF nibbles [OF assms]])
  finally show ?thesis by simp
qed

lemma json_string_body_escape:
  assumes "c < 65536"
  shows "json_string_body (unicode_escape c @ r) = cons_string c (json_string_body r)"
proof -
  define ds where "ds = [hex_digit (c div 4096 mod 16), hex_digit (c div 256 mod 16),
      hex_digit (c div 16 mod 16), hex_digit (c mod 16)]"
  have len: "length ds = 4" by (simp add: ds_def)
  have hex: "list_all (is_radix_digit 16) ds"
    unfolding ds_def by (simp add: hex_digit_is_hex)
  have val: "nat (radix_value 16 ds) = c"
    unfolding ds_def by (rule unicode_escape_value [OF assms])
  have "unicode_escape c @ r = 92 # cu CHR ''u'' # ds @ r"
    by (simp add: unicode_escape_def ds_def)
  then show ?thesis by (simp add: len hex val)
qed

lemma json_string_body_unit:
  "json_string_body (quote_unit c @ r) = cons_string c (json_string_body r)"
proof -
  consider "c \<in> {8, 9, 10, 12, 13, 34, 92}"
    | "c \<notin> {8, 9, 10, 12, 13, 34, 92}" "c < 32 \<or> is_high_surrogate c \<or> is_low_surrogate c"
    | "c \<notin> {8, 9, 10, 12, 13, 34, 92}" "\<not> (c < 32 \<or> is_high_surrogate c \<or> is_low_surrogate c)"
    by blast
  then show ?thesis
  proof cases
    case 1
    then show ?thesis by (auto simp add: quote_unit_def escape_char_def)
  next
    case 2
    then have "c < 65536" by (auto simp add: is_high_surrogate_def is_low_surrogate_def)
    then show ?thesis using 2 by (simp add: quote_unit_def json_string_body_escape)
  next
    case 3
    then show ?thesis by (simp add: quote_unit_def)
  qed
qed

lemma json_string_body_quote_units:
  "json_string_body (quote_units s @ 34 # r) = Some (s, r)"
proof (induction s rule: quote_units.induct)
  case 1
  show ?case by simp
next
  case (2 c cs)
  show ?case
  proof (cases "is_high_surrogate c \<and> cs \<noteq> [] \<and> is_low_surrogate (hd cs)")
    case True
    then obtain d ds where cs: "cs = d # ds" by (cases cs) auto
    have ne: "c \<noteq> 34" "c \<noteq> 92" "\<not> c < 32" "d \<noteq> 34" "d \<noteq> 92" "\<not> d < 32"
      using True cs by (auto simp add: is_high_surrogate_def is_low_surrogate_def)
    have ih: "json_string_body (quote_units ds @ 34 # r) = Some (ds, r)"
      using "2.IH"(1) True cs by simp
    have "quote_units (c # cs) = c # d # quote_units ds"
      using True cs by simp
    then show ?thesis using ne ih cs by (simp add: cons_string_def)
  next
    case False
    have ih: "json_string_body (quote_units cs @ 34 # r) = Some (cs, r)"
      using "2.IH"(2) False by blast
    have "quote_units (c # cs) @ 34 # r = quote_unit c @ (quote_units cs @ 34 # r)"
      using False by auto
    then show ?thesis
      by (simp only: json_string_body_unit ih cons_string_def option.map prod.case)
  qed
qed

lemma json_string_body_QuoteJSONString:
  "json_string_body (tl (QuoteJSONString s) @ r) = Some (s, r)"
  by (simp add: QuoteJSONString_def json_string_body_quote_units)

subsection \<open>Numbers\<close>




lemma hd_append_nonempty: "xs \<noteq> [] \<Longrightarrow> hd (xs @ ys) = hd xs"
  by simp






subsection \<open>Property order\<close>






subsection \<open>The parser on the text of a value\<close>

lemma skip_ws_start: "\<not> is_json_ws c \<Longrightarrow> skip_ws (c # r) = c # r"
  by (simp add: skip_ws_def)

lemma skip_ws_value_start: "value_start t \<Longrightarrow> skip_ws (t @ r) = t @ r"
  by (cases t) (simp_all add: value_start_def skip_ws_def)

lemma starts_with_hd: "starts_with p s \<Longrightarrow> p \<noteq> [] \<Longrightarrow> s \<noteq> [] \<and> hd s = hd p"
  by (cases p; cases s) (auto simp add: starts_with_def)


lemma parse_true: "parse_value (Suc f) (units ''true'' @ r) = Parsed (JBool True) r"
  by (simp add: units_def skip_ws_def is_json_ws_def starts_with_def Let_def)














subsection \<open>Every safe value reads back\<close>
























section \<open>Properties of safeJsonParse\<close>

lemma JSON_parse_unfold:
  "JSON_parse s =
     (case parse_value (Suc (2 * length s + 1)) s of
        Parsed v r \<Rightarrow> if skip_ws r = [] then Inr v else Inl SyntaxError
      | Malformed \<Rightarrow> Inl SyntaxError
      | Exhausted \<Rightarrow> Inl SyntaxError)"
  by (simp add: JSON_parse_def)

lemma parse_not_json: "parse_value (Suc f) (units ''not json'') = Malformed"
  by (simp add: units_def skip_ws_def is_json_ws_def
      starts_with_def json_number_def json_unsigned_def is_radix_digit_def radix_digit_def Let_def)

lemma JSON_parse_not_json: "JSON_parse (units ''not json'') = Inl SyntaxError"
  unfolding JSON_parse_unfold parse_not_json by simp

lemma JSON_parse_true: "JSON_parse (units ''true'') = Inr (JBool True)"
  unfolding JSON_parse_unfold using parse_true [of _ "[]"] by (simp add: skip_ws_def)

text \<open>
  C7.  \<open>safeJsonParse\<close> never throws, whatever its arguments.  For a string that
  \<^verbatim>\<open>JSON.parse\<close> rejects it returns the fallback, which is \<^verbatim>\<open>null\<close> when the second
  argument is omitted (\<^verbatim>\<open>undefined\<close>); for a string that \<^verbatim>\<open>JSON.parse\<close> accepts it returns
  the value \<^verbatim>\<open>JSON.parse\<close> returns.  There is no third outcome.
\<close>

theorem safeJsonParse_never_throws:
  "(\<exists>v. safeJsonParse str fb = Inr v)
   \<and> (JSON_parse s = Inl e \<longrightarrow>
        safeJsonParse (JStr s) fb = Inr (if fb = JUndefined then JNull else fb))
   \<and> (JSON_parse s = Inr w \<longrightarrow> safeJsonParse (JStr s) fb = Inr w)"
  by (simp add: safeJsonParse_def JSON_parse_call_def try_catch_def split: sum.splits)

theorem safeJsonParse_never_throws_witness:
  "JSON_parse (units ''not json'') = Inl SyntaxError
   \<and> safeJsonParse (JStr (units ''not json'')) JUndefined = Inr JNull
   \<and> safeJsonParse (JStr (units ''not json'')) (JObj []) = Inr (JObj [])
   \<and> JSON_parse (units ''true'') = Inr (JBool True)
   \<and> safeJsonParse (JStr (units ''true'')) JUndefined = Inr (JBool True)"
  using safeJsonParse_never_throws [of "JStr (units ''not json'')" JUndefined "units ''not json''" SyntaxError]
    safeJsonParse_never_throws [of "JStr (units ''not json'')" "JObj []" "units ''not json''" SyntaxError]
    safeJsonParse_never_throws [of "JStr (units ''true'')" JUndefined "units ''true''" _ "JBool True"]
    JSON_parse_not_json JSON_parse_true
  by simp


end
